theory Spec2Isabelle
  imports Main
begin

section \<open>The introspection-to-SDL script (src/unnamed/part_000)\<close>

text \<open>
  The script is JavaScript run by Node: it posts the introspection query, parses the reply
  with JSON.parse, and renders the types of the reply as schema text. It declares no types,
  so the model works on the values JSON.parse can return, with the coercions of the
  language written out where the script relies on them.
\<close>

subsection \<open>Values\<close>

text \<open>
  A value is what JSON.parse returns, or \<open>undefined\<close> (the result of reading a property that
  is not there). The representation:
  \<^item> a string is a list of characters, one \<open>char\<close> for each code unit, so only the code
    units 0 to 255 are covered;
  \<^item> a number is kept by what the script can see of it: its sign, and the text the
    language writes it as (Number::toString, so \<open>1e+21\<close> for 10^21 and \<open>0.5\<close> for a half).
    JSON.parse gives finite numbers, and an infinity, with the text \<open>Infinity\<close> or
    \<open>-Infinity\<close>, for a literal too large for a double; it never gives NaN;
  \<^item> an object is the list of its own properties in the order the runtime enumerates them,
    each key once (a lookup takes the first binding of a key).
\<close>

datatype number_sign = Below_zero | Is_zero | Above_zero

datatype jsval =
    Undefined
  | JNull
  | JBool bool
  | JNum number_sign string
  | JStr string
  | JArr "jsval list"
  | JObj "(string \<times> jsval) list"

text \<open>
  What the code can throw: a TypeError of the runtime (reading a property of null or
  undefined, calling or iterating what is not callable or iterable, converting an object
  with no usable toString), the SyntaxError of JSON.parse with its message, and
  \<open>new Error(message)\<close>. The message of a TypeError is the engine's and is not modelled.
\<close>

datatype js_error = TypeError | SyntaxError string | Error string

text \<open>Truthiness, as \<open>if (v)\<close>, \<open>v && ...\<close> and \<open>v ? ... : ...\<close> test it.\<close>

definition truthy :: "jsval \<Rightarrow> bool" where
  "truthy v = (case v of
      Undefined \<Rightarrow> False
    | JNull \<Rightarrow> False
    | JBool b \<Rightarrow> b
    | JNum s _ \<Rightarrow> s \<noteq> Is_zero
    | JStr s \<Rightarrow> s \<noteq> []
    | JArr _ \<Rightarrow> True
    | JObj _ \<Rightarrow> True)"

definition nullish :: "jsval \<Rightarrow> bool" where
  "nullish v = (v = Undefined \<or> v = JNull)"

text \<open>
  \<open>property v p\<close> is \<open>v.p\<close> for a \<open>v\<close> that is neither null nor undefined and a name \<open>p\<close>
  that no prototype defines. That holds for every name the script reads this way: errors,
  data, __schema, types, name, kind, ofType, fields, type, args, inputFields, enumValues.
  An object gives its own property, every other value gives \<open>undefined\<close>. \<open>get\<close> adds the
  TypeError of reading a property of null or undefined.
\<close>

definition property :: "jsval \<Rightarrow> string \<Rightarrow> jsval" where
  "property v p = (case v of
      JObj kvs \<Rightarrow> (case map_of kvs p of None \<Rightarrow> Undefined | Some x \<Rightarrow> x)
    | _ \<Rightarrow> Undefined)"

definition get :: "jsval \<Rightarrow> string \<Rightarrow> js_error + jsval" where
  "get v p = (if nullish v then Inl TypeError else Inr (property v p))"

definition is_array :: "jsval \<Rightarrow> bool" where
  "is_array v = (case v of JArr _ \<Rightarrow> True | _ \<Rightarrow> False)"

text \<open>\<open>s.startsWith(p)\<close> on strings.\<close>

definition startsWith :: "string \<Rightarrow> string \<Rightarrow> bool" where
  "startsWith s p = (take (length p) s = p)"

text \<open>\<open>ss.join(sep)\<close> on an array of strings.\<close>

fun join :: "string \<Rightarrow> string list \<Rightarrow> string" where
  "join sep [] = []"
| "join sep [s] = s"
| "join sep (s # t # ss) = s @ sep @ join sep (t # ss)"

subsection \<open>Conversion to a string\<close>

fun digits10 :: "nat \<Rightarrow> string" where
  "digits10 n =
     (if n < 10 then [char_of (48 + n)]
      else digits10 (n div 10) @ [char_of (48 + n mod 10)])"

text \<open>
  The number that is the length of an array or of a string. A length is an integer
  below 2^53, which the language writes in plain decimal.
\<close>

definition length_number :: "nat \<Rightarrow> jsval" where
  "length_number n = JNum (if n = 0 then Is_zero else Above_zero) (digits10 n)"

text \<open>
  \<open>ToString v\<close> is the string a template literal \<open>`${v}`\<close> or a concatenation \<open>v + '!'\<close>
  makes of \<open>v\<close>. An array is its elements joined by commas, null and undefined elements
  giving the empty string. A parsed object has no function of its own, so it renders as
  \<open>[object Object]\<close> through Object.prototype.toString, unless it has an own property
  \<open>toString\<close>: that shadows the method with a value that cannot be called, and the conversion
  throws a TypeError. Both conversion orders (toString first for the template, valueOf
  first for \<open>+\<close>) end the same way on these values.
\<close>

fun ToString :: "jsval \<Rightarrow> js_error + string"
  and element_strings :: "jsval list \<Rightarrow> js_error + string list" where
  "ToString Undefined = Inr ''undefined''"
| "ToString JNull = Inr ''null''"
| "ToString (JBool b) = Inr (if b then ''true'' else ''false'')"
| "ToString (JNum s t) = Inr t"
| "ToString (JStr s) = Inr s"
| "ToString (JArr xs) =
     (case element_strings xs of Inl e \<Rightarrow> Inl e | Inr ss \<Rightarrow> Inr (join '','' ss))"
| "ToString (JObj kvs) =
     (if ''toString'' \<in> fst ` set kvs then Inl TypeError else Inr ''[object Object]'')"
| "element_strings [] = Inr []"
| "element_strings (x # xs) =
     (case (if nullish x then Inr [] else ToString x) of
        Inl e \<Rightarrow> Inl e
      | Inr s \<Rightarrow> (case element_strings xs of Inl e \<Rightarrow> Inl e | Inr ss \<Rightarrow> Inr (s # ss)))"

subsection \<open>The comparison \<open>v > 0\<close>\<close>

text \<open>
  \<open>field.args.length > 0\<close> converts its left side to a number. For a string that is the
  StringToNumber grammar: white space trimmed, then a hexadecimal, octal or binary integer
  with its prefix, or a signed decimal literal (with \<open>Infinity\<close>); anything else is NaN,
  which is not greater than 0. A decimal literal is greater than 0 when it has no minus
  sign and its value rounds to a nonzero double, that is, exceeds 2^-1075.
\<close>

definition is_white :: "char \<Rightarrow> bool" where
  "is_white c = (of_char c \<in> {9, 10, 11, 12, 13, 32, 160 :: int})"

definition trim :: "string \<Rightarrow> string" where
  "trim s = rev (dropWhile is_white (rev (dropWhile is_white s)))"

definition is_digit :: "char \<Rightarrow> bool" where
  "is_digit c = (48 \<le> (of_char c :: int) \<and> (of_char c :: int) \<le> 57)"

definition radix_digit :: "char \<Rightarrow> char \<Rightarrow> bool" where
  "radix_digit r c =
     (if r \<in> {CHR ''x'', CHR ''X''} then
        is_digit c \<or> c \<in> set ''abcdefABCDEF''
      else if r \<in> {CHR ''o'', CHR ''O''} then c \<in> set ''01234567''
      else if r \<in> {CHR ''b'', CHR ''B''} then c \<in> set ''01''
      else False)"

definition prefixed_positive :: "string \<Rightarrow> bool option" where
  "prefixed_positive s =
     (case s of
        z # r # d # ds \<Rightarrow>
          if z = CHR ''0'' \<and> list_all (radix_digit r) (d # ds)
          then Some (\<not> list_all (\<lambda>c. c = CHR ''0'') (d # ds))
          else None
      | _ \<Rightarrow> None)"

definition digits_value :: "string \<Rightarrow> int" where
  "digits_value ds = foldl (\<lambda>a c. 10 * a + (of_char c - 48)) 0 ds"

definition exponent_part :: "string \<Rightarrow> int option" where
  "exponent_part s =
     (case s of
        [] \<Rightarrow> Some 0
      | e # r \<Rightarrow>
          if e \<in> {CHR ''e'', CHR ''E''} then
            (let neg = (case r of c # _ \<Rightarrow> c = CHR ''-'' | [] \<Rightarrow> False);
                 ds = (case r of c # t \<Rightarrow> if c \<in> {CHR ''+'', CHR ''-''} then t else r | [] \<Rightarrow> [])
             in if ds \<noteq> [] \<and> list_all is_digit ds
                then Some (if neg then - digits_value ds else digits_value ds)
                else None)
          else None)"

definition decimal_positive :: "string \<Rightarrow> bool" where
  "decimal_positive s =
     (let neg = (case s of c # _ \<Rightarrow> c = CHR ''-'' | [] \<Rightarrow> False);
          u = (case s of c # t \<Rightarrow> if c \<in> {CHR ''+'', CHR ''-''} then t else s | [] \<Rightarrow> [])
      in if u = ''Infinity'' then \<not> neg
         else
           (let ip = takeWhile is_digit u;
                r1 = dropWhile is_digit u;
                dot = (case r1 of c # _ \<Rightarrow> c = CHR ''.'' | [] \<Rightarrow> False);
                fp = (if dot then takeWhile is_digit (tl r1) else []);
                r2 = (if dot then dropWhile is_digit (tl r1) else r1)
            in case exponent_part r2 of
                 None \<Rightarrow> False
               | Some e \<Rightarrow>
                   (ip \<noteq> [] \<or> fp \<noteq> []) \<and> \<not> neg \<and>
                   (let m = digits_value (ip @ fp); k = e - int (length fp)
                    in 0 < m \<and> (0 \<le> k \<or> 10 ^ nat (- k) < m * 2 ^ 1075))))"

definition string_positive :: "string \<Rightarrow> bool" where
  "string_positive s =
     (case prefixed_positive (trim s) of
        Some b \<Rightarrow> b
      | None \<Rightarrow> decimal_positive (trim s))"

definition greater_than_zero :: "jsval \<Rightarrow> js_error + bool" where
  "greater_than_zero v =
     (case v of
        Undefined \<Rightarrow> Inr False
      | JNull \<Rightarrow> Inr False
      | JBool b \<Rightarrow> Inr b
      | JNum s _ \<Rightarrow> Inr (s = Above_zero)
      | JStr s \<Rightarrow> Inr (string_positive s)
      | _ \<Rightarrow> (case ToString v of Inl e \<Rightarrow> Inl e | Inr s \<Rightarrow> Inr (string_positive s)))"

text \<open>\<open>v.length\<close>, for a \<open>v\<close> that is neither null nor undefined.\<close>

definition length_of :: "jsval \<Rightarrow> jsval" where
  "length_of v =
     (case v of
        JArr xs \<Rightarrow> length_number (length xs)
      | JStr s \<Rightarrow> length_number (length s)
      | _ \<Rightarrow> property v ''length'')"

text \<open>
  \<open>for (const x of v)\<close>: an array gives its elements, a string its characters, and any
  other value is not iterable.
\<close>

definition iterate :: "jsval \<Rightarrow> js_error + jsval list" where
  "iterate v =
     (case v of
        JArr xs \<Rightarrow> Inr xs
      | JStr s \<Rightarrow> Inr (map (\<lambda>c. JStr [c]) s)
      | _ \<Rightarrow> Inl TypeError)"

text \<open>\<open>xs.map(f)\<close> with a callback that may throw: the first exception ends the call.\<close>

fun map_array :: "('a \<Rightarrow> js_error + 'b) \<Rightarrow> 'a list \<Rightarrow> js_error + 'b list" where
  "map_array f [] = Inr []"
| "map_array f (x # xs) =
     (case f x of
        Inl e \<Rightarrow> Inl e
      | Inr y \<Rightarrow> (case map_array f xs of Inl e \<Rightarrow> Inl e | Inr ys \<Rightarrow> Inr (y # ys)))"

subsection \<open>getTypeString (lines 151 to 159)\<close>

text \<open>
  The function returns \<open>type.name\<close> as it is in its last branch, so its result is a value,
  not always a string; the two wrapper branches concatenate and return strings.
\<close>

function getTypeString :: "jsval \<Rightarrow> js_error + jsval" where
  "getTypeString type =
     (if nullish type then Inl TypeError
      else if property type ''kind'' = JStr ''NON_NULL'' then
        (case getTypeString (property type ''ofType'') of
           Inl e \<Rightarrow> Inl e
         | Inr r \<Rightarrow>
             (case ToString r of Inl e \<Rightarrow> Inl e | Inr s \<Rightarrow> Inr (JStr (s @ ''!''))))
      else if property type ''kind'' = JStr ''LIST'' then
        (case getTypeString (property type ''ofType'') of
           Inl e \<Rightarrow> Inl e
         | Inr r \<Rightarrow>
             (case ToString r of Inl e \<Rightarrow> Inl e | Inr s \<Rightarrow> Inr (JStr (''['' @ s @ '']''))))
      else Inr (property type ''name''))"
  by pat_completeness auto
termination
proof -
  have below: "size x < Suc (size_list (size_prod (\<lambda>_. 0) size) kvs)"
    if "map_of kvs p = Some x" for kvs :: "(string \<times> jsval) list" and p x
    using that by (induction kvs) (auto split: if_splits)
  have smaller: "size (property v p) < size v" if "property v ''kind'' = JStr k" for v p k
    using that by (cases v) (auto simp: property_def dest: below split: option.splits)
  show ?thesis
    by (relation "measure size") (auto intro: smaller)
qed

subsection \<open>The filter of line 169\<close>

text \<open>
  The callback of \<open>types.filter\<close>: \<open>type.name && !type.name.startsWith('__') && (...)\<close>.
  Reading \<open>name\<close> of a null element throws. A truthy name that is not a string has no
  method \<open>startsWith\<close>, so the call throws. The result is the truthiness the filter tests.
\<close>

definition is_custom :: "jsval \<Rightarrow> js_error + bool" where
  "is_custom type =
     (case get type ''name'' of
        Inl e \<Rightarrow> Inl e
      | Inr name \<Rightarrow>
          if \<not> truthy name then Inr False
          else
            (case name of
               JStr s \<Rightarrow>
                 if startsWith s ''__'' then Inr False
                 else Inr (property type ''kind'' = JStr ''OBJECT'' \<or>
                           property type ''kind'' = JStr ''INPUT_OBJECT'' \<or>
                           property type ''kind'' = JStr ''ENUM'')
             | _ \<Rightarrow> Inl TypeError))"

text \<open>\<open>types.filter(callback)\<close>: the elements are tested in order, and an exception ends it.\<close>

fun customTypes :: "jsval list \<Rightarrow> js_error + jsval list" where
  "customTypes [] = Inr []"
| "customTypes (type # types) =
     (case is_custom type of
        Inl e \<Rightarrow> Inl e
      | Inr keep \<Rightarrow>
          (case customTypes types of
             Inl e \<Rightarrow> Inl e
           | Inr rest \<Rightarrow> Inr (if keep then type # rest else rest)))"

subsection \<open>Rendering one type (lines 177 to 215)\<close>

text \<open>The callback of \<open>field.args.map\<close> at line 188.\<close>

definition arg_string :: "jsval \<Rightarrow> js_error + string" where
  "arg_string arg =
     (case get arg ''name'' of
        Inl e \<Rightarrow> Inl e
      | Inr name \<Rightarrow>
          (case ToString name of
             Inl e \<Rightarrow> Inl e
           | Inr n \<Rightarrow>
               (case getTypeString (property arg ''type'') of
                  Inl e \<Rightarrow> Inl e
                | Inr r \<Rightarrow>
                    (case ToString r of
                       Inl e \<Rightarrow> Inl e
                     | Inr t \<Rightarrow> Inr (n @ '': '' @ t)))))"

text \<open>
  Lines 187 to 190, the text added to \<open>fieldDef\<close> for the arguments. The test is
  \<open>field.args && field.args.length > 0\<close>; when it holds, \<open>field.args.map\<close> is called, which
  only an array has.
\<close>

definition args_text :: "jsval \<Rightarrow> js_error + string" where
  "args_text args =
     (case (if truthy args then greater_than_zero (length_of args) else Inr False) of
        Inl e \<Rightarrow> Inl e
      | Inr has_args \<Rightarrow>
          if has_args then
            (case args of
               JArr xs \<Rightarrow>
                 (case map_array arg_string xs of
                    Inl e \<Rightarrow> Inl e
                  | Inr ss \<Rightarrow> Inr (''('' @ join '', '' ss @ '')''))
             | _ \<Rightarrow> Inl TypeError)
          else Inr [])"

text \<open>Lines 183 to 193: the line of one field of an OBJECT type, with its newline.\<close>

definition field_line :: "jsval \<Rightarrow> js_error + string" where
  "field_line field =
     (case get field ''type'' of
        Inl e \<Rightarrow> Inl e
      | Inr type \<Rightarrow>
          (case getTypeString type of
             Inl e \<Rightarrow> Inl e
           | Inr fieldType \<Rightarrow>
               (case ToString (property field ''name'') of
                  Inl e \<Rightarrow> Inl e
                | Inr n \<Rightarrow>
                    (case args_text (property field ''args'') of
                       Inl e \<Rightarrow> Inl e
                     | Inr a \<Rightarrow>
                         (case ToString fieldType of
                            Inl e \<Rightarrow> Inl e
                          | Inr t \<Rightarrow> Inr (''  '' @ n @ a @ '': '' @ t @ ''\<newline>''))))))"

text \<open>Lines 201 and 202: the line of one field of an INPUT_OBJECT type.\<close>

definition input_field_line :: "jsval \<Rightarrow> js_error + string" where
  "input_field_line field =
     (case get field ''type'' of
        Inl e \<Rightarrow> Inl e
      | Inr type \<Rightarrow>
          (case getTypeString type of
             Inl e \<Rightarrow> Inl e
           | Inr fieldType \<Rightarrow>
               (case ToString (property field ''name'') of
                  Inl e \<Rightarrow> Inl e
                | Inr n \<Rightarrow>
                    (case ToString fieldType of
                       Inl e \<Rightarrow> Inl e
                     | Inr t \<Rightarrow> Inr (''  '' @ n @ '': '' @ t @ ''\<newline>'')))))"

text \<open>Line 210: the line of one value of an ENUM type.\<close>

definition enum_value_line :: "jsval \<Rightarrow> js_error + string" where
  "enum_value_line v =
     (case get v ''name'' of
        Inl e \<Rightarrow> Inl e
      | Inr name \<Rightarrow>
          (case ToString name of
             Inl e \<Rightarrow> Inl e
           | Inr n \<Rightarrow> Inr (''  '' @ n @ ''\<newline>'')))"

text \<open>
  The three inner loops are one loop with three bodies: each iteration appends a line to
  \<open>result\<close>, and an exception leaves the function.
\<close>

fun append_lines :: "(jsval \<Rightarrow> js_error + string) \<Rightarrow> string \<Rightarrow> jsval list \<Rightarrow> js_error + string" where
  "append_lines line result [] = Inr result"
| "append_lines line result (x # xs) =
     (case line x of
        Inl e \<Rightarrow> Inl e
      | Inr l \<Rightarrow> append_lines line (result @ l) xs)"

text \<open>
  \<open>if (collection) { for (const x of collection) ... }\<close>: a falsy collection is skipped, a
  truthy one is iterated.
\<close>

definition append_collection ::
  "(jsval \<Rightarrow> js_error + string) \<Rightarrow> string \<Rightarrow> jsval \<Rightarrow> js_error + string" where
  "append_collection line result collection =
     (if truthy collection then
        (case iterate collection of
           Inl e \<Rightarrow> Inl e
         | Inr xs \<Rightarrow> append_lines line result xs)
      else Inr result)"

text \<open>
  The body of the loop of line 177, for one element of \<open>customTypes\<close>: \<open>result\<close> comes in
  and goes out extended by the block of the type.
\<close>

definition render_type :: "string \<Rightarrow> jsval \<Rightarrow> js_error + string" where
  "render_type result type =
     (case get type ''kind'' of
        Inl e \<Rightarrow> Inl e
      | Inr kind \<Rightarrow>
          if kind = JStr ''OBJECT'' then
            (case ToString (property type ''name'') of
               Inl e \<Rightarrow> Inl e
             | Inr n \<Rightarrow>
                 (case append_collection field_line
                         (result @ ''type '' @ n @ '' {\<newline>'') (property type ''fields'') of
                    Inl e \<Rightarrow> Inl e
                  | Inr r \<Rightarrow> Inr (r @ ''}\<newline>\<newline>'')))
          else if kind = JStr ''INPUT_OBJECT'' then
            (case ToString (property type ''name'') of
               Inl e \<Rightarrow> Inl e
             | Inr n \<Rightarrow>
                 (case append_collection input_field_line
                         (result @ ''input '' @ n @ '' {\<newline>'') (property type ''inputFields'') of
                    Inl e \<Rightarrow> Inl e
                  | Inr r \<Rightarrow> Inr (r @ ''}\<newline>\<newline>'')))
          else if kind = JStr ''ENUM'' then
            (case ToString (property type ''name'') of
               Inl e \<Rightarrow> Inl e
             | Inr n \<Rightarrow>
                 (case append_collection enum_value_line
                         (result @ ''enum '' @ n @ '' {\<newline>'') (property type ''enumValues'') of
                    Inl e \<Rightarrow> Inl e
                  | Inr r \<Rightarrow> Inr (r @ ''}\<newline>\<newline>'')))
          else Inr result)"

text \<open>The loop of line 177.\<close>

fun render_types :: "string \<Rightarrow> jsval list \<Rightarrow> js_error + string" where
  "render_types result [] = Inr result"
| "render_types result (type # types) =
     (case render_type result type of
        Inl e \<Rightarrow> Inl e
      | Inr r \<Rightarrow> render_types r types)"

subsection \<open>generateSchemaFromIntrospection (lines 147 to 218)\<close>

text \<open>
  What the script writes to the console and to disk, and how it exits, is a list of events.
  The console lines are kept by their parts rather than as text.
\<close>

datatype thrown = Rejected_GraphQL string | Rejected_parse js_error | Rejected_request string
  | Rejected_refused string | Thrown js_error

datatype event =
    Log_fetching string
  | Log_generating
  | Log_found string "jsval list"
  | Write_file string string
  | Log_saved
  | Log_error thrown
  | Exit int

text \<open>
  The function takes the console as it is and returns it with the line of line 175 added,
  when that line is reached. The first argument of \<open>console.log\<close> is the text
  \<open>Found n custom types:\<close>, the second the array of the names.
\<close>

definition structure_error :: js_error where
  "structure_error = Error ''Invalid schema structure: types not found or not an array''"

text \<open>Line 162: \<open>schema.__schema ? schema.__schema.types : schema.types\<close>.\<close>

definition select_types :: "jsval \<Rightarrow> js_error + jsval" where
  "select_types schema =
     (case get schema ''__schema'' of
        Inl e \<Rightarrow> Inl e
      | Inr s \<Rightarrow> Inr (if truthy s then property s ''types'' else property schema ''types''))"

text \<open>The value line 162 chooses, when the read of \<open>schema.__schema\<close> does not throw.\<close>

definition chosen_types :: "jsval \<Rightarrow> jsval" where
  "chosen_types schema =
     (if truthy (property schema ''__schema'')
      then property (property schema ''__schema'') ''types''
      else property schema ''types'')"

definition generateSchemaFromIntrospection ::
  "jsval \<Rightarrow> event list \<Rightarrow> (js_error + string) \<times> event list" where
  "generateSchemaFromIntrospection schema console =
     (case select_types schema of
        Inl e \<Rightarrow> (Inl e, console)
      | Inr types \<Rightarrow>
          if \<not> truthy types \<or> \<not> is_array types then (Inl structure_error, console)
          else
            (case customTypes (case types of JArr ts \<Rightarrow> ts | _ \<Rightarrow> []) of
               Inl e \<Rightarrow> (Inl e, console)
             | Inr custom \<Rightarrow>
                 (render_types [] custom,
                  console @
                    [Log_found
                       (''Found '' @ digits10 (length custom) @ '' custom types:'')
                       (map (\<lambda>t. property t ''name'') custom)])))"

subsection \<open>fetchSchema (lines 102 to 145)\<close>

text \<open>
  JSON.stringify on the values of this model: no white space, strings quoted with the
  escapes of the language, a finite number as the language writes it, an infinity as
  \<open>null\<close>, an undefined array element as \<open>null\<close>, an undefined property left out.
\<close>

definition quote_char :: "char \<Rightarrow> string" where
  "quote_char c =
     (let n = (of_char c :: nat) in
      if n = 8 then [CHR 0x5C, CHR ''b'']
      else if n = 9 then [CHR 0x5C, CHR ''t'']
      else if n = 10 then [CHR 0x5C, CHR ''n'']
      else if n = 12 then [CHR 0x5C, CHR ''f'']
      else if n = 13 then [CHR 0x5C, CHR ''r'']
      else if n = 34 then [CHR 0x5C, c]
      else if n = 92 then [CHR 0x5C, c]
      else if n < 32 then
        [CHR 0x5C, CHR ''u'', CHR ''0'', CHR ''0'',
         ''0123456789abcdef'' ! (n div 16), ''0123456789abcdef'' ! (n mod 16)]
      else [c])"

definition quote :: "string \<Rightarrow> string" where
  "quote s = CHR 0x22 # concat (map quote_char s) @ [CHR 0x22]"

fun stringify :: "jsval \<Rightarrow> string"
  and stringify_elements :: "jsval list \<Rightarrow> string list"
  and stringify_properties :: "(string \<times> jsval) list \<Rightarrow> string list" where
  "stringify Undefined = ''null''"
| "stringify JNull = ''null''"
| "stringify (JBool b) = (if b then ''true'' else ''false'')"
| "stringify (JNum s t) = (if t = ''Infinity'' \<or> t = ''-Infinity'' then ''null'' else t)"
| "stringify (JStr s) = quote s"
| "stringify (JArr xs) = ''['' @ join '','' (stringify_elements xs) @ '']''"
| "stringify (JObj kvs) = ''{'' @ join '','' (stringify_properties kvs) @ ''}''"
| "stringify_elements [] = []"
| "stringify_elements (x # xs) = stringify x # stringify_elements xs"
| "stringify_properties [] = []"
| "stringify_properties ((k, v) # kvs) =
     (if v = Undefined then stringify_properties kvs
      else (quote k @ '':'' @ stringify v) # stringify_properties kvs)"

text \<open>
  What the request comes back with:
  \<^item> an exception of \<open>client.request\<close> itself (line 117), which throws on a URL it
    cannot take; thrown inside the executor of the promise, it rejects the promise;
  \<^item> its \<open>error\<close> event with a message (line 138);
  \<^item> the \<open>end\<close> of the response (line 124), given by what JSON.parse makes of the body,
    \<open>Inl m\<close> for a SyntaxError with message \<open>m\<close>;
  \<^item> a response that starts and whose connection closes before its end: the script
    listens to neither \<open>aborted\<close> nor \<open>error\<close> of the response, and the request emits no
    \<open>error\<close> once a response has started, so no handler of the script runs.
  The promise is rejected at lines 128, 133 and 139 (\<open>Rejected_GraphQL\<close> with the whole
  message of the Error, \<open>Rejected_parse\<close> with the exception caught, whose message follows
  \<open>Failed to parse response: \<close>, and \<open>Rejected_request\<close>), by the exception of line 117
  (\<open>Rejected_refused\<close> with its message), and resolved at line 130. The
  \<open>try\<close> block also catches the TypeError of reading \<open>errors\<close> of a body that parsed to
  null. \<open>None\<close> is the promise that is never settled.
\<close>

datatype reply =
    Request_refused string
  | Request_error string
  | Response_end "string + jsval"
  | Response_aborted

definition fetchSchema :: "reply \<Rightarrow> (thrown + jsval) option" where
  "fetchSchema reply =
     (case reply of
        Request_refused m \<Rightarrow> Some (Inl (Rejected_refused m))
      | Request_error m \<Rightarrow> Some (Inl (Rejected_request m))
      | Response_aborted \<Rightarrow> None
      | Response_end parsed \<Rightarrow>
          (case parsed of
             Inl m \<Rightarrow> Some (Inl (Rejected_parse (SyntaxError m)))
           | Inr response \<Rightarrow>
               (case get response ''errors'' of
                  Inl e \<Rightarrow> Some (Inl (Rejected_parse e))
                | Inr errors \<Rightarrow>
                    if truthy errors
                    then Some (Inl (Rejected_GraphQL (''GraphQL errors: '' @ stringify errors)))
                    else Some (Inr (property response ''data'')))))"

subsection \<open>main (lines 221 to 238)\<close>

text \<open>
  \<open>main\<close> takes the third word of the command line if there is one, the reply of the
  server, and the message of the exception of \<open>fs.writeFileSync\<close> if it throws one. It
  gives the events of the run in order. \<open>target_url\<close> is line 222,
  \<open>process.argv[2] || 'http://localhost:4000/graphql'\<close>. When the promise of the fetch is
  never settled, \<open>await\<close> never returns: nothing follows the first line of the console,
  and the process ends with status 0 once the connection is closed.
\<close>

definition target_url :: "string option \<Rightarrow> string" where
  "target_url argv2 =
     (case argv2 of
        None \<Rightarrow> ''http://localhost:4000/graphql''
      | Some u \<Rightarrow> if u = [] then ''http://localhost:4000/graphql'' else u)"

definition main :: "string option \<Rightarrow> reply \<Rightarrow> string option \<Rightarrow> event list" where
  "main argv2 reply write_failure =
     (let url = target_url argv2
      in case fetchSchema reply of
           None \<Rightarrow> [Log_fetching url]
         | Some (Inl r) \<Rightarrow> [Log_fetching url, Log_error r, Exit 1]
         | Some (Inr schema) \<Rightarrow>
             (case generateSchemaFromIntrospection schema [Log_fetching url, Log_generating] of
                (Inl e, console) \<Rightarrow> console @ [Log_error (Thrown e), Exit 1]
              | (Inr schemaContent, console) \<Rightarrow>
                  (case write_failure of
                     None \<Rightarrow> console @ [Write_file ''schema.graphql'' schemaContent, Log_saved]
                   | Some m \<Rightarrow> console @ [Log_error (Thrown (Error m)), Exit 1])))"

section \<open>Shapes of the input, and the words of the specification\<close>

text \<open>
  The script gets its input from a GraphQL server, whose introspection types have a shape.
  The predicates of this section say which values have it; the theorems about well-formed
  input assume them. The definitions named \<open>spec_...\<close> are written from the words of the
  specification, to be compared with what the code computes.
\<close>

definition is_string :: "jsval \<Rightarrow> bool" where
  "is_string v = (case v of JStr _ \<Rightarrow> True | _ \<Rightarrow> False)"

definition named_kinds :: "string list" where
  "named_kinds = [''SCALAR'', ''OBJECT'', ''INTERFACE'', ''UNION'', ''ENUM'', ''INPUT_OBJECT'']"

definition is_wrapper :: "jsval \<Rightarrow> bool" where
  "is_wrapper t =
     (property t ''kind'' = JStr ''NON_NULL'' \<or> property t ''kind'' = JStr ''LIST'')"

text \<open>
  A TypeRef tree: a wrapper node (LIST or NON_NULL) has no name and an \<open>ofType\<close> that is a
  TypeRef; a node of any other kind has one of the six named kinds, a name that is a
  string, and no \<open>ofType\<close>. So exactly one of \<open>name\<close> and \<open>ofType\<close> is set at every node.
\<close>

function TypeRef :: "jsval \<Rightarrow> bool" where
  "TypeRef t =
     (if is_wrapper t then
        nullish (property t ''name'') \<and> \<not> nullish (property t ''ofType'') \<and>
        TypeRef (property t ''ofType'')
      else
        property t ''kind'' \<in> JStr ` set named_kinds \<and>
        is_string (property t ''name'') \<and> nullish (property t ''ofType''))"
  by pat_completeness auto
termination
proof -
  have below: "size x < Suc (size_list (size_prod (\<lambda>_. 0) size) kvs)"
    if "map_of kvs p = Some x" for kvs :: "(string \<times> jsval) list" and p x
    using that by (induction kvs) (auto split: if_splits)
  have smaller: "size (property v p) < size v" if "is_wrapper v" for v p
    using that
    by (cases v) (auto simp: is_wrapper_def property_def dest: below split: option.splits)
  show ?thesis
    by (relation "measure size") (auto intro: smaller)
qed

text \<open>
  The weaker shape that only asks what getTypeString reads: every wrapper node has an
  \<open>ofType\<close> that is not null, and the node the chain of wrappers ends in is a record
  whose name is a string.
\<close>

function unwrappable :: "jsval \<Rightarrow> bool" where
  "unwrappable t =
     (if is_wrapper t then
        \<not> nullish (property t ''ofType'') \<and> unwrappable (property t ''ofType'')
      else \<not> nullish t \<and> is_string (property t ''name''))"
  by pat_completeness auto
termination
proof -
  have below: "size x < Suc (size_list (size_prod (\<lambda>_. 0) size) kvs)"
    if "map_of kvs p = Some x" for kvs :: "(string \<times> jsval) list" and p x
    using that by (induction kvs) (auto split: if_splits)
  have smaller: "size (property v p) < size v" if "is_wrapper v" for v p
    using that
    by (cases v) (auto simp: is_wrapper_def property_def dest: below split: option.splits)
  show ?thesis
    by (relation "measure size") (auto intro: smaller)
qed

text \<open>
  The precondition of C9 in its own words, and nothing more:
  every LIST or NON_NULL node has an \<open>ofType\<close> that is not null.
\<close>

function spec_wrappers_closed :: "jsval \<Rightarrow> bool" where
  "spec_wrappers_closed t =
     (if is_wrapper t then
        \<not> nullish (property t ''ofType'') \<and> spec_wrappers_closed (property t ''ofType'')
      else True)"
  by pat_completeness auto
termination
proof -
  have below: "size x < Suc (size_list (size_prod (\<lambda>_. 0) size) kvs)"
    if "map_of kvs p = Some x" for kvs :: "(string \<times> jsval) list" and p x
    using that by (induction kvs) (auto split: if_splits)
  have smaller: "size (property v p) < size v" if "is_wrapper v" for v p
    using that
    by (cases v) (auto simp: is_wrapper_def property_def dest: below split: option.splits)
  show ?thesis
    by (relation "measure size") (auto intro: smaller)
qed

declare getTypeString.simps [simp del] TypeRef.simps [simp del] unwrappable.simps [simp del]
  spec_wrappers_closed.simps [simp del]

text \<open>Reading a well-shaped value: the string of a name, the elements of an array.\<close>

definition name_of :: "jsval \<Rightarrow> string" where
  "name_of v = (case property v ''name'' of JStr s \<Rightarrow> s | _ \<Rightarrow> [])"

definition elements :: "jsval \<Rightarrow> jsval list" where
  "elements v = (case v of JArr xs \<Rightarrow> xs | _ \<Rightarrow> [])"

definition type_string :: "jsval \<Rightarrow> string" where
  "type_string t = (case getTypeString t of Inr (JStr s) \<Rightarrow> s | _ \<Rightarrow> [])"




text \<open>
  An argument has a string name and a type getTypeString can unwrap. A field has these
  too, and arguments that are absent, null, or an array of arguments.
\<close>

definition argument :: "jsval \<Rightarrow> bool" where
  "argument a = (is_string (property a ''name'') \<and> unwrappable (property a ''type''))"

definition field_shape :: "jsval \<Rightarrow> bool" where
  "field_shape f =
     (is_string (property f ''name'') \<and> unwrappable (property f ''type'') \<and>
      (nullish (property f ''args'') \<or>
       is_array (property f ''args'') \<and> list_all argument (elements (property f ''args''))))"

text \<open>
  The line of a field in the words of the specification: two spaces, the name, the
  arguments in parentheses when there is at least one (each \<open>name: type\<close>, joined by a
  comma and a space, in their order), a colon and a space, the type, a newline.
\<close>

definition spec_argument :: "jsval \<Rightarrow> string" where
  "spec_argument a = name_of a @ '': '' @ type_string (property a ''type'')"

definition spec_field_line :: "jsval \<Rightarrow> string" where
  "spec_field_line f =
     ''  '' @ name_of f @
     (if elements (property f ''args'') = [] then []
      else ''('' @ join '', '' (map spec_argument (elements (property f ''args''))) @ '')'') @
     '': '' @ type_string (property f ''type'') @ ''\<newline>''"

text \<open>
  The types field the specification selects: the one under \<open>__schema\<close> when that key is
  present, else the one at top level.
\<close>

definition spec_selected_types :: "jsval \<Rightarrow> jsval" where
  "spec_selected_types p =
     (if nullish (property p ''__schema'') then property p ''types''
      else property (property p ''__schema'') ''types'')"

text \<open>
  When the fetch step fails in the words of the specification: the network fails (the
  request cannot be made, the request reports an error, or the connection is cut during
  the response), the body is not JSON, or the response has an errors array that is not
  empty.
\<close>

definition spec_fetch_error :: "reply \<Rightarrow> bool" where
  "spec_fetch_error r =
     (case r of
        Request_refused _ \<Rightarrow> True
      | Request_error _ \<Rightarrow> True
      | Response_aborted \<Rightarrow> True
      | Response_end parsed \<Rightarrow>
          (case parsed of
             Inl _ \<Rightarrow> True
           | Inr response \<Rightarrow>
               (case property response ''errors'' of
                  JArr xs \<Rightarrow> xs \<noteq> []
                | _ \<Rightarrow> False)))"

section \<open>Example inputs\<close>

text \<open>The values the theorems are run on: TypeRef nodes as the server writes them.\<close>

definition named_ref :: "string \<Rightarrow> string \<Rightarrow> jsval" where
  "named_ref k n = JObj [(''kind'', JStr k), (''name'', JStr n)]"

definition wrapper_ref :: "string \<Rightarrow> jsval \<Rightarrow> jsval" where
  "wrapper_ref k t = JObj [(''kind'', JStr k), (''ofType'', t)]"

text \<open>The five types of the filtering example of the specification, and the type Foo.\<close>

definition string_ref :: jsval where
  "string_ref = named_ref ''SCALAR'' ''String''"

definition user_type :: jsval where
  "user_type =
     JObj [(''kind'', JStr ''OBJECT''), (''name'', JStr ''User''),
           (''fields'',
            JArr [JObj [(''name'', JStr ''id''), (''args'', JArr []),
                        (''type'', wrapper_ref ''NON_NULL'' (named_ref ''SCALAR'' ''ID''))],
                  JObj [(''name'', JStr ''role''), (''args'', JArr []),
                        (''type'', named_ref ''ENUM'' ''Role'')]])]"


definition role_type :: jsval where
  "role_type =
     JObj [(''kind'', JStr ''ENUM''), (''name'', JStr ''Role''),
           (''enumValues'', JArr [JObj [(''name'', JStr ''ADMIN'')],
                                  JObj [(''name'', JStr ''MEMBER'')]])]"



definition foo_type :: jsval where
  "foo_type = JObj [(''kind'', JStr ''OBJECT''), (''name'', JStr ''Foo''), (''fields'', JNull)]"

text \<open>The field \<open>search(name: String, limit: Int!): [User!]!\<close> of the type Query.\<close>

definition search_field :: jsval where
  "search_field =
     JObj [(''name'', JStr ''search''),
           (''args'',
            JArr [JObj [(''name'', JStr ''name''), (''type'', string_ref)],
                  JObj [(''name'', JStr ''limit''),
                        (''type'', wrapper_ref ''NON_NULL'' (named_ref ''SCALAR'' ''Int''))]]),
           (''type'',
            wrapper_ref ''NON_NULL''
              (wrapper_ref ''LIST'' (wrapper_ref ''NON_NULL'' (named_ref ''OBJECT'' ''User''))))]"

definition query_type :: jsval where
  "query_type =
     JObj [(''kind'', JStr ''OBJECT''), (''name'', JStr ''Query''),
           (''fields'',
            JArr [search_field,
                  JObj [(''name'', JStr ''me''), (''args'', JArr []),
                        (''type'', named_ref ''OBJECT'' ''User'')]])]"

text \<open>Two responses of a server: one with an error, one with an empty errors array.\<close>

definition boom_response :: jsval where
  "boom_response = JObj [(''errors'', JArr [JObj [(''message'', JStr ''boom'')]])]"

definition empty_errors_response :: jsval where
  "empty_errors_response =
     JObj [(''data'', JObj [(''__schema'', JObj [(''types'', JArr [role_type])])]),
           (''errors'', JArr [])]"

definition payload :: "jsval list \<Rightarrow> jsval" where
  "payload types = JObj [(''__schema'', JObj [(''types'', JArr types)])]"

lemmas shape_defs =
  named_ref_def wrapper_ref_def is_wrapper_def property_def nullish_def named_kinds_def
  is_string_def

section \<open>getTypeString\<close>

lemma wrapper_not_nullish: "is_wrapper t \<Longrightarrow> \<not> nullish t"
  by (auto simp: is_wrapper_def nullish_def property_def)

lemma is_string_not_nullish: "is_string (property t p) \<Longrightarrow> \<not> nullish t"
  by (auto simp: is_string_def nullish_def property_def)

lemma TypeRef_unwrappable: "TypeRef t \<Longrightarrow> unwrappable t"
proof (induction t rule: TypeRef.induct)
  case (1 t)
  show ?case
  proof (cases "is_wrapper t")
    case True
    with "1.prems" have "\<not> nullish (property t ''ofType'')" "TypeRef (property t ''ofType'')"
      by (simp_all add: TypeRef.simps [of t])
    with True "1.IH" show ?thesis
      by (simp add: unwrappable.simps [of t])
  next
    case False
    with "1.prems" have "is_string (property t ''name'')"
      by (simp add: TypeRef.simps [of t])
    with False show ?thesis
      by (simp add: unwrappable.simps [of t] is_string_not_nullish)
  qed
qed

lemma getTypeString_unwrappable:
  "unwrappable t \<Longrightarrow> \<exists>s. getTypeString t = Inr (JStr s)"
proof (induction t rule: unwrappable.induct)
  case (1 t)
  show ?case
  proof (cases "is_wrapper t")
    case True
    with "1.prems" have "unwrappable (property t ''ofType'')"
      by (simp add: unwrappable.simps [of t])
    with True "1.IH" obtain r where r: "getTypeString (property t ''ofType'') = Inr (JStr r)"
      by blast
    from True have "\<not> nullish t" by (rule wrapper_not_nullish)
    with True r show ?thesis
      by (auto simp: getTypeString.simps [of t] is_wrapper_def)
  next
    case False
    with "1.prems" have "\<not> nullish t" "is_string (property t ''name'')"
      by (simp_all add: unwrappable.simps [of t])
    with False show ?thesis
      by (auto simp: getTypeString.simps [of t] is_wrapper_def is_string_def
          split: jsval.splits)
  qed
qed

text \<open>
  No depth is special: \<open>n\<close> LIST wrappers around a scalar give \<open>n\<close> pairs of brackets,
  also beyond the seven levels the query of the script asks for.
\<close>

lemma getTypeString_any_depth:
  "getTypeString ((wrapper_ref ''LIST'' ^^ n) (named_ref ''SCALAR'' s)) =
     Inr (JStr (replicate n CHR ''['' @ s @ replicate n CHR '']''))"
proof (induction n)
  case 0
  show ?case
    by (simp add: getTypeString.simps shape_defs)
next
  case (Suc n)
  have "getTypeString (wrapper_ref ''LIST'' t) =
      (case getTypeString t of
         Inl e \<Rightarrow> Inl e
       | Inr r \<Rightarrow> (case ToString r of Inl e \<Rightarrow> Inl e | Inr s \<Rightarrow> Inr (JStr (''['' @ s @ '']''))))"
    for t
    by (subst getTypeString.simps) (simp add: shape_defs)
  with Suc show ?case
    by (simp add: replicate_append_same)
qed

text \<open>
  C1. On a TypeRef tree getTypeString returns a string, whatever the depth: for NON_NULL
  the string of \<open>ofType\<close> followed by \<open>!\<close>, for LIST the string of \<open>ofType\<close> between
  \<open>[\<close> and \<open>]\<close>, and for every other kind the name of the node as it is.
\<close>

theorem getTypeString_TypeRef:
  assumes "TypeRef t"
  shows "\<exists>s. getTypeString t = Inr (JStr s) \<and>
           (property t ''kind'' = JStr ''NON_NULL'' \<longrightarrow>
              (\<exists>r. getTypeString (property t ''ofType'') = Inr (JStr r) \<and> s = r @ ''!'')) \<and>
           (property t ''kind'' = JStr ''LIST'' \<longrightarrow>
              (\<exists>r. getTypeString (property t ''ofType'') = Inr (JStr r) \<and>
                   s = ''['' @ r @ '']'')) \<and>
           (property t ''kind'' \<noteq> JStr ''NON_NULL'' \<and> property t ''kind'' \<noteq> JStr ''LIST'' \<longrightarrow>
              property t ''name'' = JStr s)"
proof -
  from assms have u: "unwrappable t" by (rule TypeRef_unwrappable)
  then obtain s where s: "getTypeString t = Inr (JStr s)"
    using getTypeString_unwrappable by blast
  have nn: "\<not> nullish t"
    using u by (auto simp: unwrappable.simps [of t] wrapper_not_nullish split: if_splits)
  have inner: "\<exists>r. getTypeString (property t ''ofType'') = Inr (JStr r)" if "is_wrapper t"
    using that u getTypeString_unwrappable [of "property t ''ofType''"]
    by (simp add: unwrappable.simps [of t])
  have a: "\<exists>r. getTypeString (property t ''ofType'') = Inr (JStr r) \<and> s = r @ ''!''"
    if "property t ''kind'' = JStr ''NON_NULL''"
    using that s nn inner by (auto simp: getTypeString.simps [of t] is_wrapper_def)
  have b: "\<exists>r. getTypeString (property t ''ofType'') = Inr (JStr r) \<and> s = ''['' @ r @ '']''"
    if "property t ''kind'' = JStr ''LIST''"
    using that s nn inner by (auto simp: getTypeString.simps [of t] is_wrapper_def)
  have c: "property t ''name'' = JStr s"
    if "property t ''kind'' \<noteq> JStr ''NON_NULL''" "property t ''kind'' \<noteq> JStr ''LIST''"
    using that s nn by (simp add: getTypeString.simps [of t])
  from s a b c show ?thesis by blast
qed

text \<open>
  The example of the specification: NON_NULL of LIST of NON_NULL of the scalar String is
  \<open>[String!]!\<close>, found with the theorem at each of the four nodes.
\<close>

theorem getTypeString_TypeRef_witness:
  "TypeRef (wrapper_ref ''NON_NULL'' (wrapper_ref ''LIST''
      (wrapper_ref ''NON_NULL'' (named_ref ''SCALAR'' ''String'')))) \<and>
   getTypeString (wrapper_ref ''NON_NULL'' (wrapper_ref ''LIST''
      (wrapper_ref ''NON_NULL'' (named_ref ''SCALAR'' ''String'')))) = Inr (JStr ''[String!]!'')"
proof -
  let ?s = "named_ref ''SCALAR'' ''String''"
  let ?a = "wrapper_ref ''NON_NULL'' ?s"
  let ?b = "wrapper_ref ''LIST'' ?a"
  let ?c = "wrapper_ref ''NON_NULL'' ?b"
  have wf: "TypeRef ?s" "TypeRef ?a" "TypeRef ?b" "TypeRef ?c"
    by (simp_all add: TypeRef.simps shape_defs)
  have p: "property (wrapper_ref k t) ''kind'' = JStr k"
    "property (wrapper_ref k t) ''ofType'' = t"
    "property (named_ref k n) ''kind'' = JStr k"
    "property (named_ref k n) ''name'' = JStr n" for k t n
    by (simp_all add: wrapper_ref_def named_ref_def property_def)
  from getTypeString_TypeRef [OF wf(1)] have "getTypeString ?s = Inr (JStr ''String'')"
    by (auto simp: p)
  with getTypeString_TypeRef [OF wf(2)] have "getTypeString ?a = Inr (JStr ''String!'')"
    by (auto simp: p)
  with getTypeString_TypeRef [OF wf(3)] have "getTypeString ?b = Inr (JStr ''[String!]'')"
    by (auto simp: p)
  with getTypeString_TypeRef [OF wf(4)] have "getTypeString ?c = Inr (JStr ''[String!]!'')"
    by (auto simp: p)
  with wf(4) show ?thesis by simp
qed

text \<open>
  A chain of wrappers cut off below a wrapper, as the query of the script cuts a type
  nested deeper than it asks for: the TypeError of the innermost call comes up through
  every level.
\<close>

lemma getTypeString_truncated:
  "getTypeString ((wrapper_ref ''LIST'' ^^ n) (JObj [(''kind'', JStr ''LIST''), (''name'', JNull)])) =
     Inl TypeError"
proof (induction n)
  case 0
  show ?case
    by (simp add: getTypeString.simps shape_defs)
next
  case (Suc n)
  have "getTypeString (wrapper_ref ''LIST'' t) =
      (case getTypeString t of
         Inl e \<Rightarrow> Inl e
       | Inr r \<Rightarrow> (case ToString r of Inl e \<Rightarrow> Inl e | Inr s \<Rightarrow> Inr (JStr (''['' @ s @ '']''))))"
    for t
    by (subst getTypeString.simps) (simp add: shape_defs)
  with Suc show ?case
    by simp
qed

lemma unwrappable_closed: "unwrappable t \<Longrightarrow> spec_wrappers_closed t"
proof (induction t rule: unwrappable.induct)
  case (1 t)
  show ?case
  proof (cases "is_wrapper t")
    case True
    with "1.prems" have "\<not> nullish (property t ''ofType'')" "unwrappable (property t ''ofType'')"
      by (simp_all add: unwrappable.simps [of t])
    with True "1.IH" show ?thesis
      by (simp add: spec_wrappers_closed.simps [of t])
  next
    case False
    then show ?thesis
      by (simp add: spec_wrappers_closed.simps [of t])
  qed
qed

text \<open>
  C9 as it is worded fails: that every wrapper node has a non-null \<open>ofType\<close> is
  not enough for a string to come back. A node of kind SCALAR with no name has the
  precondition and gives \<open>undefined\<close>, which is not a string; a NON_NULL of a SCALAR
  whose name is an object with an own property \<open>toString\<close> has it too and throws, at
  the concatenation of line 153.
\<close>

theorem getTypeString_ofType_counterexample:
  "spec_wrappers_closed (JObj [(''kind'', JStr ''SCALAR'')]) \<and>
   getTypeString (JObj [(''kind'', JStr ''SCALAR'')]) = Inr Undefined \<and>
   spec_wrappers_closed
     (wrapper_ref ''NON_NULL''
        (JObj [(''kind'', JStr ''SCALAR''), (''name'', JObj [(''toString'', JStr ''x'')])])) \<and>
   getTypeString
     (wrapper_ref ''NON_NULL''
        (JObj [(''kind'', JStr ''SCALAR''), (''name'', JObj [(''toString'', JStr ''x'')])])) =
     Inl TypeError"
  by code_simp

text \<open>
  C9, as amended. A LIST or NON_NULL node whose \<open>ofType\<close> is null or absent makes
  getTypeString throw (the recursive call reads \<open>kind\<close> of null or undefined). When
  every wrapper node has a non-null \<open>ofType\<close> and the chain of wrappers ends in a record
  whose name is a string, the function returns a string; that shape is the precondition
  as worded with the condition on the name added.
\<close>

theorem getTypeString_ofType:
  "(is_wrapper t \<and> nullish (property t ''ofType'') \<longrightarrow> getTypeString t = Inl TypeError) \<and>
   (unwrappable t \<longrightarrow> spec_wrappers_closed t \<and> (\<exists>s. getTypeString t = Inr (JStr s)))"
proof (intro conjI impI)
  assume w: "is_wrapper t \<and> nullish (property t ''ofType'')"
  then have "getTypeString (property t ''ofType'') = Inl TypeError"
    by (simp add: getTypeString.simps [of "property t ''ofType''"])
  with w show "getTypeString t = Inl TypeError"
    by (auto simp: getTypeString.simps [of t] is_wrapper_def dest: wrapper_not_nullish)
next
  assume "unwrappable t"
  then show "spec_wrappers_closed t"
    by (rule unwrappable_closed)
next
  assume "unwrappable t"
  then show "\<exists>s. getTypeString t = Inr (JStr s)"
    by (rule getTypeString_unwrappable)
qed

text \<open>
  Both halves at concrete nodes: a LIST with \<open>ofType: null\<close> and a NON_NULL with no
  \<open>ofType\<close> throw; a LIST of the scalar Int returns a string.
\<close>

theorem getTypeString_ofType_witness:
  "is_wrapper (wrapper_ref ''LIST'' JNull) \<and>
   nullish (property (wrapper_ref ''LIST'' JNull) ''ofType'') \<and>
   getTypeString (wrapper_ref ''LIST'' JNull) = Inl TypeError \<and>
   is_wrapper (JObj [(''kind'', JStr ''NON_NULL'')]) \<and>
   nullish (property (JObj [(''kind'', JStr ''NON_NULL'')]) ''ofType'') \<and>
   getTypeString (JObj [(''kind'', JStr ''NON_NULL'')]) = Inl TypeError \<and>
   unwrappable (wrapper_ref ''LIST'' (named_ref ''SCALAR'' ''Int'')) \<and>
   getTypeString (wrapper_ref ''LIST'' (named_ref ''SCALAR'' ''Int'')) = Inr (JStr ''[Int]'')"
proof -
  have a: "is_wrapper (wrapper_ref ''LIST'' JNull) \<and>
      nullish (property (wrapper_ref ''LIST'' JNull) ''ofType'')"
    by (simp add: shape_defs)
  have b: "is_wrapper (JObj [(''kind'', JStr ''NON_NULL'')]) \<and>
      nullish (property (JObj [(''kind'', JStr ''NON_NULL'')]) ''ofType'')"
    by (simp add: shape_defs)
  have c: "unwrappable (wrapper_ref ''LIST'' (named_ref ''SCALAR'' ''Int''))"
    by (simp add: unwrappable.simps shape_defs)
  from getTypeString_ofType [of "wrapper_ref ''LIST'' (named_ref ''SCALAR'' ''Int'')"] c
  obtain s where s: "getTypeString (wrapper_ref ''LIST'' (named_ref ''SCALAR'' ''Int'')) = Inr (JStr s)"
    by blast
  then have "s = ''[Int]''"
    by (simp add: getTypeString.simps shape_defs)
  with s a b c getTypeString_ofType [of "wrapper_ref ''LIST'' JNull"]
    getTypeString_ofType [of "JObj [(''kind'', JStr ''NON_NULL'')]"]
  show ?thesis by simp
qed

section \<open>The exceptions of the renderer\<close>

text \<open>
  Every exception thrown below line 166 is a TypeError of the runtime: the only
  \<open>throw\<close> of the script is the structure error of line 165.
\<close>

lemma ToString_TypeError:
  "ToString v = Inl e \<Longrightarrow> e = TypeError"
  "element_strings xs = Inl e \<Longrightarrow> e = TypeError"
  by (induction v and xs arbitrary: e and e rule: ToString_element_strings.induct)
    (auto split: sum.splits if_splits)

lemma getTypeString_TypeError: "getTypeString t = Inl e \<Longrightarrow> e = TypeError"
proof (induction t arbitrary: e rule: getTypeString.induct)
  case (1 t)
  from "1.prems" show ?case
    by (subst (asm) getTypeString.simps)
      (auto split: if_splits sum.splits dest: "1.IH" ToString_TypeError)
qed

lemma greater_than_zero_TypeError: "greater_than_zero v = Inl e \<Longrightarrow> e = TypeError"
  by (auto simp: greater_than_zero_def split: jsval.splits sum.splits if_splits
      dest: ToString_TypeError)

lemma get_TypeError: "get v p = Inl e \<Longrightarrow> e = TypeError"
  by (auto simp: get_def split: if_splits)

lemma iterate_TypeError: "iterate v = Inl e \<Longrightarrow> e = TypeError"
  by (auto simp: iterate_def split: jsval.splits)

lemma is_custom_TypeError: "is_custom d = Inl e \<Longrightarrow> e = TypeError"
  by (auto simp: is_custom_def split: sum.splits if_splits jsval.splits dest: get_TypeError)

lemma customTypes_TypeError: "customTypes ds = Inl e \<Longrightarrow> e = TypeError"
  by (induction ds arbitrary: e) (auto split: sum.splits dest: is_custom_TypeError)

lemma map_array_TypeError:
  "(\<And>x e. f x = Inl e \<Longrightarrow> e = TypeError) \<Longrightarrow> map_array f xs = Inl e \<Longrightarrow> e = TypeError"
  by (induction xs arbitrary: e) (auto split: sum.splits)

lemma append_lines_TypeError:
  "(\<And>x e. line x = Inl e \<Longrightarrow> e = TypeError) \<Longrightarrow>
   append_lines line r xs = Inl e \<Longrightarrow> e = TypeError"
  by (induction xs arbitrary: r e) (auto split: sum.splits)

lemma append_collection_TypeError:
  assumes "\<And>x e. line x = Inl e \<Longrightarrow> e = TypeError"
    and "append_collection line r v = Inl e"
  shows "e = TypeError"
proof -
  have "append_lines line r' xs = Inl e' \<Longrightarrow> e' = TypeError" for r' xs e'
    using assms(1) by (rule append_lines_TypeError)
  with assms(2) show ?thesis
    by (auto simp: append_collection_def split: if_splits sum.splits dest: iterate_TypeError)
qed

lemma arg_string_TypeError: "arg_string a = Inl e \<Longrightarrow> e = TypeError"
  by (auto simp: arg_string_def split: sum.splits
      dest: get_TypeError ToString_TypeError getTypeString_TypeError)

lemma map_arg_string_TypeError: "map_array arg_string xs = Inl e \<Longrightarrow> e = TypeError"
  by (rule map_array_TypeError) (rule arg_string_TypeError)

lemma args_text_TypeError: "args_text a = Inl e \<Longrightarrow> e = TypeError"
  by (auto simp: args_text_def split: sum.splits if_splits jsval.splits
      dest: greater_than_zero_TypeError map_arg_string_TypeError)

lemma field_line_TypeError: "field_line f = Inl e \<Longrightarrow> e = TypeError"
  by (auto simp: field_line_def split: sum.splits
      dest: get_TypeError ToString_TypeError getTypeString_TypeError args_text_TypeError)

lemma input_field_line_TypeError: "input_field_line f = Inl e \<Longrightarrow> e = TypeError"
  by (auto simp: input_field_line_def split: sum.splits
      dest: get_TypeError ToString_TypeError getTypeString_TypeError)

lemma enum_value_line_TypeError: "enum_value_line f = Inl e \<Longrightarrow> e = TypeError"
  by (auto simp: enum_value_line_def split: sum.splits
      dest: get_TypeError ToString_TypeError)

lemma collections_TypeError:
  "append_collection field_line r v = Inl e \<Longrightarrow> e = TypeError"
  "append_collection input_field_line r v = Inl e \<Longrightarrow> e = TypeError"
  "append_collection enum_value_line r v = Inl e \<Longrightarrow> e = TypeError"
  by (erule append_collection_TypeError [rotated],
      erule field_line_TypeError input_field_line_TypeError enum_value_line_TypeError)+

lemma render_type_TypeError: "render_type r d = Inl e \<Longrightarrow> e = TypeError"
  by (auto simp: render_type_def split: sum.splits if_splits
      dest: get_TypeError ToString_TypeError collections_TypeError)

lemma render_types_TypeError: "render_types r ds = Inl e \<Longrightarrow> e = TypeError"
  by (induction ds arbitrary: r e) (auto split: sum.splits dest: render_type_TypeError)

section \<open>generateSchemaFromIntrospection: the selection of the types\<close>

lemma truthy_not_nullish: "truthy v \<Longrightarrow> \<not> nullish v"
  by (auto simp: truthy_def nullish_def)

lemma truthy_property_not_nullish: "truthy (property p k) \<Longrightarrow> \<not> nullish p"
  by (auto simp: truthy_def nullish_def property_def)

lemma is_array_truthy: "is_array v \<Longrightarrow> truthy v"
  by (cases v) (simp_all add: is_array_def truthy_def)

lemma select_types_not_nullish:
  "\<not> nullish p \<Longrightarrow>
   select_types p =
     Inr (if truthy (property p ''__schema'') then property (property p ''__schema'') ''types''
          else property p ''types'')"
  by (simp add: select_types_def get_def)

lemma generate_not_array:
  "select_types p = Inr types \<Longrightarrow> \<not> is_array types \<Longrightarrow>
   generateSchemaFromIntrospection p c = (Inl structure_error, c)"
  by (simp add: generateSchemaFromIntrospection_def)

lemma generate_array:
  "select_types p = Inr (JArr ds) \<Longrightarrow>
   generateSchemaFromIntrospection p c =
     (case customTypes ds of
        Inl e \<Rightarrow> (Inl e, c)
      | Inr custom \<Rightarrow>
          (render_types [] custom,
           c @ [Log_found (''Found '' @ digits10 (length custom) @ '' custom types:'')
                  (map (\<lambda>t. property t ''name'') custom)]))"
  by (simp add: generateSchemaFromIntrospection_def truthy_def is_array_def)

lemma generate_array_TypeError:
  assumes "select_types p = Inr types" "is_array types"
    and "fst (generateSchemaFromIntrospection p c) = Inl e"
  shows "e = TypeError"
proof -
  from assms(2) obtain ds where "types = JArr ds"
    by (cases types) (simp_all add: is_array_def)
  with assms(1,3) show ?thesis
    by (auto simp: generate_array split: sum.splits
        dest: customTypes_TypeError render_types_TypeError)
qed

text \<open>A payload that is itself null or undefined: line 162 throws before any check.\<close>

lemma nullish_payload_throws:
  "nullish p \<Longrightarrow> generateSchemaFromIntrospection p c = (Inl TypeError, c)"
  by (simp add: generateSchemaFromIntrospection_def select_types_def get_def)

lemma select_types_chosen: "\<not> nullish p \<Longrightarrow> select_types p = Inr (chosen_types p)"
  by (simp add: select_types_not_nullish chosen_types_def)

text \<open>
  C3 as the specification words it fails. A payload that is \<open>undefined\<close>, which is what
  \<open>main\<close> passes on when the response has no \<open>data\<close>, has no types field, yet the
  renderer throws a TypeError, not the structure error. And a payload whose \<open>__schema\<close>
  is present but falsy is rendered from its top-level \<open>types\<close>, although there is no
  types field under the \<open>__schema\<close> key.
\<close>

theorem structure_error_counterexample:
  "\<not> is_array (spec_selected_types Undefined) \<and>
   generateSchemaFromIntrospection Undefined [] = (Inl TypeError, []) \<and>
   \<not> is_array (spec_selected_types
     (JObj [(''__schema'', JNum Is_zero ''0''), (''types'', JArr [role_type])])) \<and>
   fst (generateSchemaFromIntrospection
     (JObj [(''__schema'', JNum Is_zero ''0''), (''types'', JArr [role_type])]) []) =
     Inr ''enum Role {\<newline>  ADMIN\<newline>  MEMBER\<newline>}\<newline>\<newline>''"
  by code_simp

text \<open>
  C3, as amended. The renderer fails with the structure error exactly when the payload
  is neither null nor undefined and the types field that line 162 chooses (the one under
  \<open>__schema\<close> when \<open>__schema\<close> is truthy, else the one at top level) is missing or not an
  array. It then returns no text and logs nothing: the console is as it was. A payload
  that is null or undefined throws a TypeError.
\<close>

theorem structure_error_iff:
  "(fst (generateSchemaFromIntrospection p c) = Inl structure_error \<longleftrightarrow>
      \<not> nullish p \<and> \<not> is_array (chosen_types p)) \<and>
   (\<not> nullish p \<and> \<not> is_array (chosen_types p) \<longrightarrow>
      generateSchemaFromIntrospection p c = (Inl structure_error, c)) \<and>
   (nullish p \<longrightarrow> generateSchemaFromIntrospection p c = (Inl TypeError, c))"
proof (cases "nullish p")
  case True
  then have "generateSchemaFromIntrospection p c = (Inl TypeError, c)"
    by (rule nullish_payload_throws)
  with True show ?thesis
    by (simp add: structure_error_def)
next
  case False
  then have sel: "select_types p = Inr (chosen_types p)"
    by (rule select_types_chosen)
  have a: "generateSchemaFromIntrospection p c = (Inl structure_error, c)"
    if "\<not> is_array (chosen_types p)"
    using sel that by (rule generate_not_array)
  have b: "fst (generateSchemaFromIntrospection p c) \<noteq> Inl structure_error"
    if "is_array (chosen_types p)"
    using generate_array_TypeError [OF sel that, of c structure_error]
    by (auto simp: structure_error_def)
  from False a b show ?thesis by auto
qed

text \<open>
  The two payloads of the specification, \<open>{}\<close> and \<open>{ types: "not-an-array" }\<close>, fail
  with the structure error and its message; a payload with a types array does not.
\<close>

theorem structure_error_iff_witness:
  "\<not> nullish (JObj []) \<and>
   \<not> is_array (chosen_types (JObj [])) \<and>
   generateSchemaFromIntrospection (JObj []) [] =
     (Inl (Error ''Invalid schema structure: types not found or not an array''), []) \<and>
   \<not> is_array (chosen_types (JObj [(''types'', JStr ''not-an-array'')])) \<and>
   generateSchemaFromIntrospection (JObj [(''types'', JStr ''not-an-array'')]) [] =
     (Inl (Error ''Invalid schema structure: types not found or not an array''), []) \<and>
   is_array (chosen_types (payload [role_type])) \<and>
   fst (generateSchemaFromIntrospection (payload [role_type]) []) \<noteq>
     Inl (Error ''Invalid schema structure: types not found or not an array'')"
proof -
  have a: "\<not> nullish (JObj [])" "\<not> is_array (chosen_types (JObj []))"
    by code_simp+
  have b: "\<not> nullish (JObj [(''types'', JStr ''not-an-array'')])"
    "\<not> is_array (chosen_types (JObj [(''types'', JStr ''not-an-array'')]))"
    by code_simp+
  have c: "\<not> nullish (payload [role_type])" "is_array (chosen_types (payload [role_type]))"
    by code_simp+
  from structure_error_iff [of "JObj []" "[]"] a
    structure_error_iff [of "JObj [(''types'', JStr ''not-an-array'')]" "[]"] b
    structure_error_iff [of "payload [role_type]" "[]"] c
  show ?thesis
    by (simp add: structure_error_def)
qed

text \<open>
  C10. A truthy \<open>__schema\<close> has precedence: the result is the one of the payload with
  every other key removed, so a top-level \<open>types\<close> is never read, and when
  \<open>__schema.types\<close> is not an array the structure error is thrown.
\<close>

theorem schema_key_precedence:
  assumes "truthy (property p ''__schema'')"
  shows "generateSchemaFromIntrospection p c =
           generateSchemaFromIntrospection (JObj [(''__schema'', property p ''__schema'')]) c \<and>
         (\<not> is_array (property (property p ''__schema'') ''types'') \<longrightarrow>
            generateSchemaFromIntrospection p c = (Inl structure_error, c))"
proof -
  from assms have nn: "\<not> nullish p" by (rule truthy_property_not_nullish)
  with assms have sel: "select_types p = Inr (property (property p ''__schema'') ''types'')"
    by (simp add: select_types_not_nullish)
  have sel': "select_types (JObj [(''__schema'', property p ''__schema'')]) =
      Inr (property (property p ''__schema'') ''types'')"
    using assms by (simp add: select_types_def get_def nullish_def property_def)
  have "generateSchemaFromIntrospection p c =
      generateSchemaFromIntrospection (JObj [(''__schema'', property p ''__schema'')]) c"
    by (simp add: generateSchemaFromIntrospection_def sel sel')
  with generate_not_array [OF sel, of c] show ?thesis by simp
qed

text \<open>
  A payload with an empty \<open>__schema\<close> object and a valid top-level \<open>types\<close> fails with
  the structure error, while the same \<open>types\<close> alone are rendered.
\<close>

theorem schema_key_precedence_witness:
  "truthy (property (JObj [(''__schema'', JObj []), (''types'', JArr [role_type])]) ''__schema'') \<and>
   \<not> is_array (property (property (JObj [(''__schema'', JObj []), (''types'', JArr [role_type])])
      ''__schema'') ''types'') \<and>
   generateSchemaFromIntrospection (JObj [(''__schema'', JObj []), (''types'', JArr [role_type])]) [] =
     (Inl (Error ''Invalid schema structure: types not found or not an array''), []) \<and>
   fst (generateSchemaFromIntrospection (JObj [(''types'', JArr [role_type])]) []) =
     Inr ''enum Role {\<newline>  ADMIN\<newline>  MEMBER\<newline>}\<newline>\<newline>''"
proof -
  let ?p = "JObj [(''__schema'', JObj []), (''types'', JArr [role_type])]"
  have a: "truthy (property ?p ''__schema'')"
    "\<not> is_array (property (property ?p ''__schema'') ''types'')"
    by code_simp+
  have b: "fst (generateSchemaFromIntrospection (JObj [(''types'', JArr [role_type])]) []) =
     Inr ''enum Role {\<newline>  ADMIN\<newline>  MEMBER\<newline>}\<newline>\<newline>''"
    by code_simp
  from schema_key_precedence [OF a(1), of "[]"] a(2)
  have "generateSchemaFromIntrospection ?p [] = (Inl structure_error, [])"
    by blast
  with a b show ?thesis
    by (simp add: structure_error_def)
qed

section \<open>The filter and the order of the blocks\<close>

lemma customTypes_filter:
  "customTypes ds = Inr kept \<Longrightarrow> kept = filter (\<lambda>d. is_custom d = Inr True) ds"
  by (induction ds arbitrary: kept) (auto split: sum.splits)



text \<open>
  The filter tests the name for truthiness, so a name that is the empty string counts as
  not present.
\<close>

lemma empty_name_not_kept:
  "\<not> nullish d \<Longrightarrow> property d ''name'' = JStr [] \<Longrightarrow> is_custom d = Inr False"
  by (simp add: is_custom_def get_def truthy_def)

text \<open>
  The loops add to \<open>result\<close> as they go. What they add does not depend on what
  \<open>result\<close> holds, so the text returned is the concatenation of the blocks of the types,
  and a block is the concatenation of its lines.
\<close>

lemma append_lines_concat:
  "append_lines line r xs =
     (case map_array line xs of Inl e \<Rightarrow> Inl e | Inr ls \<Rightarrow> Inr (r @ concat ls))"
  by (induction xs arbitrary: r) (auto split: sum.splits)

lemma append_collection_prefix:
  "append_collection line r v =
     (case append_collection line [] v of Inl e \<Rightarrow> Inl e | Inr ls \<Rightarrow> Inr (r @ ls))"
  by (auto simp: append_collection_def append_lines_concat split: sum.splits)

lemma render_type_prefix:
  "render_type r d = (case render_type [] d of Inl e \<Rightarrow> Inl e | Inr b \<Rightarrow> Inr (r @ b))"
proof -
  have c: "append_collection line (r @ h) v =
      (case append_collection line h v of Inl e \<Rightarrow> Inl e | Inr ls \<Rightarrow> Inr (r @ ls))" for line h v
    by (subst append_collection_prefix, subst (2) append_collection_prefix)
      (simp split: sum.splits)
  show ?thesis
    by (simp add: render_type_def c [of _ "_ @ _", simplified] c split: sum.splits)
qed

lemma map_array_list_all2:
  "map_array f xs = Inr ys \<longleftrightarrow> list_all2 (\<lambda>x y. f x = Inr y) xs ys"
proof (induction xs arbitrary: ys)
  case Nil
  show ?case by auto
next
  case (Cons x xs)
  show ?case
    by (cases "f x"; cases "map_array f xs")
      (auto simp: list_all2_Cons1 Cons.IH [symmetric])
qed

lemma render_types_concat:
  "render_types r ds =
     (case map_array (render_type []) ds of Inl e \<Rightarrow> Inl e | Inr bs \<Rightarrow> Inr (r @ concat bs))"
proof (induction ds arbitrary: r)
  case Nil
  show ?case by simp
next
  case (Cons d ds)
  show ?case
    by (subst render_types.simps, subst render_type_prefix)
      (simp add: Cons.IH split: sum.splits)
qed


lemma render_types_blocks:
  "render_types [] kept = Inr text \<longleftrightarrow>
   (\<exists>blocks. list_all2 (\<lambda>d b. render_type [] d = Inr b) kept blocks \<and> text = concat blocks)"
  by (subst render_types_concat) (auto simp: map_array_list_all2 [symmetric] split: sum.splits)



text \<open>
  C5. The renderer returns a text exactly when the filter raises no error and every
  descriptor that passes it has a block; the text is then the concatenation of these
  blocks, one for each passing element of the input, in the order of the input. Nothing
  is sorted and nothing is dropped: an element that occurs twice has two blocks.
\<close>

theorem blocks_in_input_order:
  assumes "select_types p = Inr (JArr ds)"
  shows "fst (generateSchemaFromIntrospection p c) = Inr text \<longleftrightarrow>
         customTypes ds = Inr (filter (\<lambda>d. is_custom d = Inr True) ds) \<and>
         (\<exists>blocks. list_all2 (\<lambda>d b. render_type [] d = Inr b)
                     (filter (\<lambda>d. is_custom d = Inr True) ds) blocks \<and>
                   text = concat blocks)"
proof (cases "customTypes ds")
  case (Inl e)
  with assms show ?thesis by (simp add: generate_array)
next
  case (Inr kept)
  then have "kept = filter (\<lambda>d. is_custom d = Inr True) ds"
    by (rule customTypes_filter)
  with Inr assms show ?thesis
    by (simp add: generate_array render_types_blocks)
qed

text \<open>
  The type User given twice with Role between: three blocks, User, Role, User, neither
  sorted nor merged.
\<close>

theorem blocks_in_input_order_witness:
  "select_types (payload [user_type, role_type, user_type]) =
     Inr (JArr [user_type, role_type, user_type]) \<and>
   customTypes [user_type, role_type, user_type] = Inr [user_type, role_type, user_type] \<and>
   list_all2 (\<lambda>d b. render_type [] d = Inr b) [user_type, role_type, user_type]
     [''type User {\<newline>  id: ID!\<newline>  role: Role\<newline>}\<newline>\<newline>'',
      ''enum Role {\<newline>  ADMIN\<newline>  MEMBER\<newline>}\<newline>\<newline>'',
      ''type User {\<newline>  id: ID!\<newline>  role: Role\<newline>}\<newline>\<newline>''] \<and>
   fst (generateSchemaFromIntrospection (payload [user_type, role_type, user_type]) []) =
     Inr (''type User {\<newline>  id: ID!\<newline>  role: Role\<newline>}\<newline>\<newline>'' @
          ''enum Role {\<newline>  ADMIN\<newline>  MEMBER\<newline>}\<newline>\<newline>'' @
          ''type User {\<newline>  id: ID!\<newline>  role: Role\<newline>}\<newline>\<newline>'')"
proof -
  let ?ds = "[user_type, role_type, user_type]"
  let ?U = "''type User {\<newline>  id: ID!\<newline>  role: Role\<newline>}\<newline>\<newline>''"
  let ?R = "''enum Role {\<newline>  ADMIN\<newline>  MEMBER\<newline>}\<newline>\<newline>''"
  have a: "select_types (payload ?ds) = Inr (JArr ?ds)"
    by code_simp
  have f: "filter (\<lambda>d. is_custom d = Inr True) ?ds = ?ds"
    by code_simp
  have k: "customTypes ?ds = Inr ?ds"
    by code_simp
  have u: "render_type [] user_type = Inr ?U" and r: "render_type [] role_type = Inr ?R"
    by code_simp+
  then have l: "list_all2 (\<lambda>d b. render_type [] d = Inr b) ?ds [?U, ?R, ?U]"
    by simp
  from blocks_in_input_order [OF a, of "[]" "concat [?U, ?R, ?U]"] k l
  have "fst (generateSchemaFromIntrospection (payload ?ds) []) = Inr (concat [?U, ?R, ?U])"
    unfolding f by blast
  with a k l show ?thesis by simp
qed

section \<open>Fields and empty collections\<close>

lemma unwrappable_type_string:
  "unwrappable t \<Longrightarrow> getTypeString t = Inr (JStr (type_string t))"
  using getTypeString_unwrappable [of t] by (auto simp: type_string_def)

lemma is_string_name_of: "is_string (property v ''name'') \<Longrightarrow> property v ''name'' = JStr (name_of v)"
  by (auto simp: is_string_def name_of_def split: jsval.splits)

lemma arg_string_argument: "argument a \<Longrightarrow> arg_string a = Inr (spec_argument a)"
  by (auto simp: argument_def arg_string_def spec_argument_def get_def
      is_string_not_nullish is_string_name_of unwrappable_type_string)

lemma map_array_all:
  "(\<And>x. x \<in> set xs \<Longrightarrow> f x = Inr (g x)) \<Longrightarrow> map_array f xs = Inr (map g xs)"
  by (induction xs) simp_all

lemma args_text_shape:
  assumes "nullish args \<or> is_array args \<and> list_all argument (elements args)"
  shows "args_text args =
     Inr (if elements args = [] then []
          else ''('' @ join '', '' (map spec_argument (elements args)) @ '')'')"
proof (cases args)
  case (JArr xs)
  with assms have "list_all argument xs" by (simp add: elements_def nullish_def)
  then have "map_array arg_string xs = Inr (map spec_argument xs)"
    by (intro map_array_all arg_string_argument) (simp add: list_all_iff)
  with JArr show ?thesis
    by (cases xs)
      (simp_all add: args_text_def truthy_def length_of_def length_number_def
        greater_than_zero_def elements_def)
qed (use assms in \<open>simp_all add: nullish_def is_array_def args_text_def truthy_def elements_def\<close>)

lemma field_line_shape:
  assumes "field_shape f"
  shows "field_line f = Inr (spec_field_line f)"
proof -
  from assms have s: "is_string (property f ''name'')" and u: "unwrappable (property f ''type'')"
    and a: "nullish (property f ''args'') \<or>
      is_array (property f ''args'') \<and> list_all argument (elements (property f ''args''))"
    by (simp_all add: field_shape_def)
  from s have nn: "\<not> nullish f" by (rule is_string_not_nullish)
  from nn show ?thesis
    by (simp add: field_line_def spec_field_line_def get_def is_string_name_of [OF s]
        unwrappable_type_string [OF u] args_text_shape [OF a])
qed

text \<open>
  C6. The block of an OBJECT type whose fields are well-shaped is its header, the lines
  of its fields in order, and the closing brace. The line of each field is the one of
  the specification, and the text for its arguments is empty exactly when it has no
  argument.
\<close>

theorem object_field_lines:
  assumes "property d ''kind'' = JStr ''OBJECT''" and "is_string (property d ''name'')"
    and "property d ''fields'' = JArr fs" and "list_all field_shape fs"
  shows "render_type r d =
           Inr (r @ ''type '' @ name_of d @ '' {\<newline>'' @ concat (map spec_field_line fs) @
                ''}\<newline>\<newline>'') \<and>
         (\<forall>f \<in> set fs.
            field_line f = Inr (spec_field_line f) \<and>
            (args_text (property f ''args'') = Inr [] \<longleftrightarrow> elements (property f ''args'') = []))"
proof -
  from assms(4) have lines: "map_array field_line fs = Inr (map spec_field_line fs)"
    by (intro map_array_all field_line_shape) (simp add: list_all_iff)
  from assms(2) have nn: "\<not> nullish d" by (rule is_string_not_nullish)
  have block: "render_type r d =
      Inr (r @ ''type '' @ name_of d @ '' {\<newline>'' @ concat (map spec_field_line fs) @
           ''}\<newline>\<newline>'')"
    using assms(1,3) nn lines
    by (simp add: render_type_def get_def is_string_name_of [OF assms(2)]
        append_collection_def truthy_def iterate_def append_lines_concat)
  have "field_line f = Inr (spec_field_line f) \<and>
      (args_text (property f ''args'') = Inr [] \<longleftrightarrow> elements (property f ''args'') = [])"
    if "f \<in> set fs" for f
  proof -
    from that assms(4) have f: "field_shape f" by (simp add: list_all_iff)
    then have "args_text (property f ''args'') =
        Inr (if elements (property f ''args'') = [] then []
             else ''('' @ join '', '' (map spec_argument (elements (property f ''args''))) @ '')'')"
      by (intro args_text_shape) (simp add: field_shape_def)
    with f show ?thesis by (simp add: field_line_shape)
  qed
  with block show ?thesis by blast
qed

text \<open>
  The argument example of the specification, the field \<open>search\<close> of the type Query,
  beside a field with no arguments.
\<close>

theorem object_field_lines_witness:
  "property query_type ''kind'' = JStr ''OBJECT'' \<and>
   is_string (property query_type ''name'') \<and>
   property query_type ''fields'' = JArr (elements (property query_type ''fields'')) \<and>
   list_all field_shape (elements (property query_type ''fields'')) \<and>
   search_field \<in> set (elements (property query_type ''fields'')) \<and>
   field_line search_field = Inr ''  search(name: String, limit: Int!): [User!]!\<newline>'' \<and>
   render_type [] query_type =
     Inr (''type Query {\<newline>'' @
          ''  search(name: String, limit: Int!): [User!]!\<newline>'' @
          ''  me: User\<newline>'' @
          ''}\<newline>\<newline>'')"
proof -
  let ?fs = "elements (property query_type ''fields'')"
  have a: "property query_type ''kind'' = JStr ''OBJECT''"
    and b: "is_string (property query_type ''name'')"
    and c: "property query_type ''fields'' = JArr ?fs"
    by code_simp+
  have d: "list_all field_shape ?fs"
    by code_simp
  have e: "search_field \<in> set ?fs"
    by code_simp
  have s: "spec_field_line search_field = ''  search(name: String, limit: Int!): [User!]!\<newline>''"
    by code_simp
  have t: "''type '' @ name_of query_type @ '' {\<newline>'' @ concat (map spec_field_line ?fs) @
      ''}\<newline>\<newline>'' =
     ''type Query {\<newline>'' @
     ''  search(name: String, limit: Int!): [User!]!\<newline>'' @
     ''  me: User\<newline>'' @
     ''}\<newline>\<newline>''"
    by code_simp
  from object_field_lines [OF a b c d, of "[]"] e
  have "field_line search_field = Inr (spec_field_line search_field)"
    and "render_type [] query_type =
      Inr ([] @ ''type '' @ name_of query_type @ '' {\<newline>'' @ concat (map spec_field_line ?fs) @
           ''}\<newline>\<newline>'')"
    by blast+
  with a b c d e show ?thesis
    unfolding s by (simp only: append_Nil t simp_thms)
qed

text \<open>
  C7. A type whose collection (\<open>fields\<close> for OBJECT, \<open>inputFields\<close> for INPUT_OBJECT,
  \<open>enumValues\<close> for ENUM) is null or absent renders as its header line and the closing
  brace with a blank line, and raises no error.
\<close>

theorem empty_collection_block:
  assumes "is_string (property d ''name'')"
  shows "(property d ''kind'' = JStr ''OBJECT'' \<and> nullish (property d ''fields'') \<longrightarrow>
            render_type r d = Inr (r @ ''type '' @ name_of d @ '' {\<newline>}\<newline>\<newline>'')) \<and>
         (property d ''kind'' = JStr ''INPUT_OBJECT'' \<and> nullish (property d ''inputFields'') \<longrightarrow>
            render_type r d = Inr (r @ ''input '' @ name_of d @ '' {\<newline>}\<newline>\<newline>'')) \<and>
         (property d ''kind'' = JStr ''ENUM'' \<and> nullish (property d ''enumValues'') \<longrightarrow>
            render_type r d = Inr (r @ ''enum '' @ name_of d @ '' {\<newline>}\<newline>\<newline>''))"
proof -
  from assms have nn: "\<not> nullish d" by (rule is_string_not_nullish)
  have skip: "append_collection line h v = Inr h" if "nullish v" for line h v
    using that by (auto simp: append_collection_def truthy_def nullish_def)
  from nn show ?thesis
    by (simp add: render_type_def get_def is_string_name_of [OF assms] skip)
qed

text \<open>
  The type Foo with \<open>fields: null\<close> of the specification, alone in a payload, and an ENUM
  with no \<open>enumValues\<close> key.
\<close>

theorem empty_collection_block_witness:
  "is_string (property foo_type ''name'') \<and>
   property foo_type ''kind'' = JStr ''OBJECT'' \<and>
   nullish (property foo_type ''fields'') \<and>
   render_type [] foo_type = Inr ''type Foo {\<newline>}\<newline>\<newline>'' \<and>
   generateSchemaFromIntrospection (payload [foo_type]) [] =
     (Inr ''type Foo {\<newline>}\<newline>\<newline>'', [Log_found ''Found 1 custom types:'' [JStr ''Foo'']]) \<and>
   is_string (property (named_ref ''ENUM'' ''Empty'') ''name'') \<and>
   property (named_ref ''ENUM'' ''Empty'') ''kind'' = JStr ''ENUM'' \<and>
   nullish (property (named_ref ''ENUM'' ''Empty'') ''enumValues'') \<and>
   render_type [] (named_ref ''ENUM'' ''Empty'') = Inr ''enum Empty {\<newline>}\<newline>\<newline>''"
proof -
  have a: "is_string (property foo_type ''name'')"
    and b: "property foo_type ''kind'' = JStr ''OBJECT'' \<and> nullish (property foo_type ''fields'')"
    and n: "name_of foo_type = ''Foo''"
    by code_simp+
  have a': "is_string (property (named_ref ''ENUM'' ''Empty'') ''name'')"
    and b': "property (named_ref ''ENUM'' ''Empty'') ''kind'' = JStr ''ENUM'' \<and>
      nullish (property (named_ref ''ENUM'' ''Empty'') ''enumValues'')"
    and n': "name_of (named_ref ''ENUM'' ''Empty'') = ''Empty''"
    by code_simp+
  have g: "generateSchemaFromIntrospection (payload [foo_type]) [] =
     (Inr ''type Foo {\<newline>}\<newline>\<newline>'', [Log_found ''Found 1 custom types:'' [JStr ''Foo'']])"
    by code_simp
  from empty_collection_block [OF a, of "[]"] b
  have "render_type [] foo_type = Inr ''type Foo {\<newline>}\<newline>\<newline>''"
    by (simp add: n)
  moreover from empty_collection_block [OF a', of "[]"] b'
  have "render_type [] (named_ref ''ENUM'' ''Empty'') = Inr ''enum Empty {\<newline>}\<newline>\<newline>''"
    by (simp add: n')
  ultimately show ?thesis
    using a b a' b' g by simp
qed

section \<open>fetchSchema and main\<close>

text \<open>
  The renderer adds at most its one line to the console, and \<open>main\<close> writes the file
  only after the fetch has resolved and the renderer has returned a text: no failure
  leaves a partial file.
\<close>

lemma console_after:
  "snd (generateSchemaFromIntrospection p c) = c \<or>
   (\<exists>n names. snd (generateSchemaFromIntrospection p c) = c @ [Log_found n names])"
  by (simp add: generateSchemaFromIntrospection_def split: sum.splits)

lemma main_writes_only_on_success:
  assumes "Write_file name text \<in> set (main argv2 r w)"
  shows "\<exists>p. fetchSchema r = Some (Inr p) \<and> w = None \<and> name = ''schema.graphql'' \<and>
           fst (generateSchemaFromIntrospection p
                  [Log_fetching (target_url argv2), Log_generating]) = Inr text"
proof (cases "fetchSchema r")
  case None
  with assms show ?thesis by (simp add: main_def)
next
  case (Some settled)
  show ?thesis
  proof (cases settled)
    case (Inl e)
    with Some assms show ?thesis by (simp add: main_def)
  next
    case (Inr p)
    let ?c = "[Log_fetching (target_url argv2), Log_generating]"
    obtain res con where g: "generateSchemaFromIntrospection p ?c = (res, con)"
      by (cases "generateSchemaFromIntrospection p ?c")
    from console_after [of p ?c] g have no: "Write_file name text \<notin> set con"
      by auto
    from assms Some Inr g no show ?thesis
      by (cases res; cases w) (auto simp: main_def)
  qed
qed

text \<open>
  C4 as the specification words it fails, both ways. A response whose \<open>errors\<close> array is
  empty is rejected all the same, since an empty array is truthy. And a network failure
  after the response has started, the connection cut before the end of the body, rejects
  nothing: the promise is never settled.
\<close>

theorem fetch_error_counterexample:
  "fetchSchema (Response_end (Inr empty_errors_response)) =
     Some (Inl (Rejected_GraphQL ''GraphQL errors: []'')) \<and>
   \<not> spec_fetch_error (Response_end (Inr empty_errors_response)) \<and>
   fetchSchema Response_aborted = None \<and>
   spec_fetch_error Response_aborted"
  by code_simp

text \<open>
  C4, as amended. The fetch step rejects exactly when the request cannot be made or
  reports an error, JSON.parse throws, the body parses to null, or the \<open>errors\<close> field of the response is
  truthy (an array counts, empty or not). With a truthy \<open>errors\<close> the rejection carries
  \<open>GraphQL errors: \<close> followed by the JSON text of that field. After any rejection
  \<open>main\<close> logs the error and exits with status 1: the renderer is not called, so its
  log line is not there, and no file is written.
\<close>

theorem fetchSchema_rejects_iff:
  "((\<exists>e. fetchSchema r = Some (Inl e)) \<longleftrightarrow>
      (case r of
         Request_refused _ \<Rightarrow> True
       | Request_error _ \<Rightarrow> True
       | Response_aborted \<Rightarrow> False
       | Response_end parsed \<Rightarrow>
           (case parsed of
              Inl _ \<Rightarrow> True
            | Inr response \<Rightarrow> nullish response \<or> truthy (property response ''errors'')))) \<and>
   (\<forall>response. r = Response_end (Inr response) \<and> truthy (property response ''errors'') \<longrightarrow>
      fetchSchema r =
        Some (Inl (Rejected_GraphQL
                (''GraphQL errors: '' @ stringify (property response ''errors''))))) \<and>
   (\<forall>e. fetchSchema r = Some (Inl e) \<longrightarrow>
      main argv2 r w = [Log_fetching (target_url argv2), Log_error e, Exit 1])"
proof -
  have nn: "\<not> nullish v" if "truthy (property v k)" for v k
    using that by (auto simp: truthy_def nullish_def property_def)
  have a: "(\<exists>e. fetchSchema r = Some (Inl e)) \<longleftrightarrow>
      (case r of
         Request_refused _ \<Rightarrow> True
       | Request_error _ \<Rightarrow> True
       | Response_aborted \<Rightarrow> False
       | Response_end parsed \<Rightarrow>
           (case parsed of
              Inl _ \<Rightarrow> True
            | Inr response \<Rightarrow> nullish response \<or> truthy (property response ''errors'')))"
    by (auto simp: fetchSchema_def get_def split: reply.splits sum.splits)
  have b: "fetchSchema r =
      Some (Inl (Rejected_GraphQL
              (''GraphQL errors: '' @ stringify (property response ''errors''))))"
    if "r = Response_end (Inr response)" "truthy (property response ''errors'')" for response
    using that nn [OF that(2)] by (simp add: fetchSchema_def get_def)
  have c: "main argv2 r w = [Log_fetching (target_url argv2), Log_error e, Exit 1]"
    if "fetchSchema r = Some (Inl e)" for e
    using that by (simp add: main_def)
  from a b c show ?thesis by blast
qed

text \<open>
  The example of the specification: the response \<open>{"errors":[{"message":"boom"}]}\<close> is
  rejected with its errors as JSON text, and \<open>main\<close> logs that and exits. An \<open>errors\<close>
  that is the number 10^21 is written as the language writes it. A body that is \<open>null\<close>
  is rejected; a response with \<open>errors: null\<close> is not.
\<close>

theorem fetchSchema_rejects_iff_witness:
  "truthy (property boom_response ''errors'') \<and>
   fetchSchema (Response_end (Inr boom_response)) =
     Some (Inl (Rejected_GraphQL
            (''GraphQL errors: [{'' @ quote ''message'' @ '':'' @ quote ''boom'' @ ''}]''))) \<and>
   main None (Response_end (Inr boom_response)) None =
     [Log_fetching ''http://localhost:4000/graphql'',
      Log_error (Rejected_GraphQL
            (''GraphQL errors: [{'' @ quote ''message'' @ '':'' @ quote ''boom'' @ ''}]'')),
      Exit 1] \<and>
   fetchSchema (Response_end (Inr (JObj [(''errors'', JNum Above_zero ''1e+21'')]))) =
     Some (Inl (Rejected_GraphQL ''GraphQL errors: 1e+21'')) \<and>
   (\<exists>e. fetchSchema (Response_end (Inr JNull)) = Some (Inl e)) \<and>
   fetchSchema (Response_end (Inr (JObj [(''data'', payload [role_type]), (''errors'', JNull)]))) =
     Some (Inr (payload [role_type]))"
proof -
  let ?big = "JObj [(''errors'', JNum Above_zero ''1e+21'')]"
  have a: "truthy (property boom_response ''errors'')"
    by code_simp
  have s: "''GraphQL errors: '' @ stringify (property boom_response ''errors'') =
      ''GraphQL errors: [{'' @ quote ''message'' @ '':'' @ quote ''boom'' @ ''}]''"
    by code_simp
  have u: "target_url None = ''http://localhost:4000/graphql''"
    by code_simp
  have g: "truthy (property ?big ''errors'')"
    "''GraphQL errors: '' @ stringify (property ?big ''errors'') = ''GraphQL errors: 1e+21''"
    by code_simp+
  have k: "fetchSchema (Response_end (Inr (JObj [(''data'', payload [role_type]),
      (''errors'', JNull)]))) = Some (Inr (payload [role_type]))"
    by code_simp
  from fetchSchema_rejects_iff [of "Response_end (Inr boom_response)" None None] a
  have f: "fetchSchema (Response_end (Inr boom_response)) =
      Some (Inl (Rejected_GraphQL
        (''GraphQL errors: '' @ stringify (property boom_response ''errors''))))"
    by blast
  with fetchSchema_rejects_iff [of "Response_end (Inr boom_response)" None None]
  have m: "main None (Response_end (Inr boom_response)) None =
      [Log_fetching (target_url None),
       Log_error (Rejected_GraphQL
          (''GraphQL errors: '' @ stringify (property boom_response ''errors''))), Exit 1]"
    by blast
  from fetchSchema_rejects_iff [of "Response_end (Inr ?big)" None None] g(1)
  have b: "fetchSchema (Response_end (Inr ?big)) =
      Some (Inl (Rejected_GraphQL (''GraphQL errors: '' @ stringify (property ?big ''errors''))))"
    by blast
  from fetchSchema_rejects_iff [of "Response_end (Inr JNull)" None None]
  have j: "\<exists>e. fetchSchema (Response_end (Inr JNull)) = Some (Inl e)"
    by (simp add: nullish_def)
  from a f m b j k show ?thesis
    unfolding s u g(2) by simp
qed

end
